theory Spec2Isabelle
  imports Main
begin

section \<open>Data model\<close>

text \<open>
  The embedding follows \<^verbatim>\<open>packages/backend/src/core/ChannelFollowingService.ts\<close> and
  \<^verbatim>\<open>packages/backend/src/core/ChannelService.ts\<close>. Tables are the rows the
  repositories hold; every \<^verbatim>\<open>throw\<close> and every rejected promise is an \<open>Inl\<close> value.
  Column \<^verbatim>\<open>createdAt\<close> is left out of the rows: nothing in the services reads it.
\<close>

type_synonym ident = string

text \<open>The columns of \<^verbatim>\<open>User\<close> that the service reads or writes.\<close>

record user =
  user_id :: ident
  user_host :: "string option"
  user_uri :: "string option"
  user_inbox :: "string option"
  user_sharedInbox :: "string option"
  movedToUri :: "string option"
  followingCount :: int
  followersCount :: int

text \<open>
  \<^verbatim>\<open>ChannelEntity\<close>: \<^verbatim>\<open>insertFollowingDoc\<close> reads \<^verbatim>\<open>channel.id\<close> and
  \<^verbatim>\<open>channel.user!.id\<close>; \<open>channel_user\<close> is the joined owner, \<open>None\<close> when the
  relation is not loaded.
\<close>

record channel =
  channel_id :: ident
  channel_user :: "user option"

text \<open>\<^verbatim>\<open>models/entities/ChannelFollowRequest.ts\<close>: id, channelId, followerId, requestId.\<close>

record channelFollowRequest =
  cfr_id :: ident
  cfr_channelId :: ident
  cfr_followerId :: ident
  cfr_requestId :: "string option"

text \<open>A row of \<^verbatim>\<open>followingsRepository\<close>, with the columns the service queries.\<close>

record following =
  fg_id :: ident
  fg_followerId :: ident
  fg_followeeId :: ident

text \<open>A row of \<^verbatim>\<open>channelFollowingsRepository\<close>, as \<^verbatim>\<open>ChannelService\<close> queries it.\<close>

record channelFollowing =
  cf_id :: ident
  cf_followeeId :: ident
  cf_followerId :: ident

text \<open>
  Modelled from the spec: the payloads of \<^verbatim>\<open>ApRendererService\<close>, which is not
  among the sources. Section 6 names the four activity shapes and what each carries: the
  two actors, an optional correlation id, and the wrapped activity with its actor.
\<close>

datatype activity =
    Follow ident ident "string option"
  | Accept activity ident
  | Reject activity ident
  | Undo activity ident

record delivery =
  d_actor :: ident
  d_content :: activity
  d_to :: "string option"
  d_isSharedInbox :: bool

datatype event =
    InternalEvent string ident ident
  | MainStream ident string ident
  | WebhookDeliver ident string ident
  | InstanceDecrement string string
  | InstanceChartUpdateFollowing string bool
  | InstanceChartUpdateFollowers string bool
  | PerUserFollowingChartUpdate ident ident bool

record webhook =
  wh_id :: ident
  wh_userId :: ident
  wh_on :: "string list"

text \<open>
  What a rejected promise carries. \<open>ReferenceError x\<close> is the read of an identifier \<open>x\<close>
  that no enclosing scope declares; \<open>TypeError p\<close> is a property read on \<open>p\<close> when \<open>p\<close>
  is \<^verbatim>\<open>undefined\<close>; \<open>EntityPropertyNotFoundError k\<close> is the repository's refusal of
  find options that name a property \<open>k\<close> the entity does not have in that role.
\<close>

datatype error =
    IdentifiableError string string
  | Error string
  | ReferenceError string
  | TypeError string
  | EntityNotFoundError
  | EntityPropertyNotFoundError string
  | DuplicateKeyValueError

record store =
  users :: "ident \<rightharpoonup> user"
  channels :: "ident \<rightharpoonup> channel"
  blockings :: "(ident \<times> ident) list"
  followings :: "following list"
  channelFollowRequests :: "channelFollowRequest list"
  channelFollowings :: "channelFollowing list"
  queue :: "delivery list"
  events :: "event list"
  webhooks :: "webhook list"
  enableChartsForFederatedInstances :: bool

type_synonym 'a result = "(error + 'a) \<times> store"

section \<open>Collaborators\<close>

text \<open>
  Modelled from the spec: \<^verbatim>\<open>UserEntityService.isLocalUser\<close>, which is not
  among the sources. Section 3: a null host is a local actor.
\<close>

definition isLocalUser :: "user \<Rightarrow> bool" where
  "isLocalUser u = (user_host u = None)"

text \<open>
  Modelled from the spec: \<^verbatim>\<open>UserEntityService.isRemoteUser\<close>, which is not
  among the sources. Section 3: a non-null host is a remote actor.
\<close>

definition isRemoteUser :: "user \<Rightarrow> bool" where
  "isRemoteUser u = (\<not> isLocalUser u)"

text \<open>
  Modelled from the spec: \<^verbatim>\<open>UserBlockingService.checkBlocked\<close>, which is not
  among the sources. Section 6: the oracle answers \<^verbatim>\<open>isBlocked(blocker, blocked)\<close>
  for an ordered pair.
\<close>

definition checkBlocked :: "store \<Rightarrow> ident \<Rightarrow> ident \<Rightarrow> bool" where
  "checkBlocked s blockerId blockeeId = ((blockerId, blockeeId) \<in> set (blockings s))"

text \<open>
  Modelled from the spec: \<^verbatim>\<open>UserBlockingService.unblock\<close>, which is not among
  the sources. Section 4.1, step 3: the stale block of the remote follower is lifted;
  the oracle is a read-side collaborator, so the tables of requests and edges are not
  its to write.
\<close>

definition unblock :: "user \<Rightarrow> channel \<Rightarrow> store \<Rightarrow> store" where
  "unblock blocker blockee s =
     s\<lparr>blockings := filter (\<lambda>p. p \<noteq> (user_id blocker, channel_id blockee)) (blockings s)\<rparr>"

text \<open>Truthiness of a \<^verbatim>\<open>string | null\<close> value: null and the empty string are falsy.\<close>

definition truthy :: "string option \<Rightarrow> bool" where
  "truthy v = (case v of None \<Rightarrow> False | Some t \<Rightarrow> t \<noteq> [])"

definition deliver :: "ident \<Rightarrow> activity \<Rightarrow> string option \<Rightarrow> bool \<Rightarrow> store \<Rightarrow> store" where
  "deliver actor content to isSharedInbox s =
     s\<lparr>queue := queue s @
        [\<lparr>d_actor = actor, d_content = content, d_to = to, d_isSharedInbox = isSharedInbox\<rparr>]\<rparr>"

definition publish :: "event \<Rightarrow> store \<Rightarrow> store" where
  "publish e s = s\<lparr>events := events s @ [e]\<rparr>"

section \<open>ChannelService\<close>

text \<open>
  \<^verbatim>\<open>isFolloing\<close>: \<^verbatim>\<open>findOneBy({ followeeId: channelId, followerId: userId })\<close>
  on the channel-following table, then \<^verbatim>\<open>!!\<close> of the row.
\<close>

definition isFolloing :: "store \<Rightarrow> ident \<Rightarrow> ident \<Rightarrow> bool" where
  "isFolloing s channelId userId =
     (case find (\<lambda>r. cf_followeeId r = channelId \<and> cf_followerId r = userId) (channelFollowings s) of
        None \<Rightarrow> False
      | Some channelFollowing \<Rightarrow> True)"

section \<open>ChannelFollowingService: the follow state machine\<close>

text \<open>
  The class (exported as \<^verbatim>\<open>UserFollowingService\<close>) declares these repository fields
  in its constructor: \<^verbatim>\<open>usersRepository\<close>, \<^verbatim>\<open>userProfilesRepository\<close>,
  \<^verbatim>\<open>followingsRepository\<close>, \<^verbatim>\<open>channelFollowRequestsRepository\<close>,
  \<^verbatim>\<open>channelRepository\<close> and \<^verbatim>\<open>instancesRepository\<close>. It declares no field
  \<^verbatim>\<open>followRequestsRepository\<close>, and nothing assigns one, so every read of
  \<^verbatim>\<open>this.followRequestsRepository\<close> yields \<^verbatim>\<open>undefined\<close> and the method call
  on it raises a TypeError before its arguments are evaluated.
\<close>

definition followRequestsRepository_undefined :: error where
  "followRequestsRepository_undefined = TypeError ''this.followRequestsRepository''"

subsection \<open>follow\<close>

text \<open>
  \<^verbatim>\<open>follow(_follower, _channel, requestId, silent)\<close>, lines 87 to 167. The names in
  scope are the four parameters and the locals \<^verbatim>\<open>follower\<close>, \<^verbatim>\<open>channel\<close>,
  \<^verbatim>\<open>blocking\<close> and \<^verbatim>\<open>blocked\<close>; the module declares only \<^verbatim>\<open>logger\<close>.
  \<^verbatim>\<open>followee\<close> is declared nowhere. It is read at line 101, while the arguments of
  \<^verbatim>\<open>renderFollow\<close> are evaluated and before \<^verbatim>\<open>queueService.deliver\<close> of line 102,
  and again at line 113 (\<^verbatim>\<open>followee.id\<close>), which every run that passes the blocking
  block reaches. Lines 119 to 166 are therefore never executed and have no counterpart
  here.
\<close>

definition follow :: "ident \<Rightarrow> ident \<Rightarrow> string option \<Rightarrow> bool \<Rightarrow> store \<Rightarrow> unit result" where
  "follow followerId channelId requestId silent s =
     (case users s followerId of
        None \<Rightarrow> (Inl EntityNotFoundError, s)
      | Some follower \<Rightarrow>
          (case channels s channelId of
             None \<Rightarrow> (Inl EntityNotFoundError, s)
           | Some channel \<Rightarrow>
               (let blocking = checkBlocked s (user_id follower) (channel_id channel);
                    blocked = checkBlocked s (channel_id channel) (user_id follower)
                in if isRemoteUser follower \<and> blocked then
                     (Inl (ReferenceError ''followee''), s)
                   else if isRemoteUser follower \<and> blocking then
                     (Inl (ReferenceError ''followee''), unblock follower channel s)
                   else if blocking then
                     (Inl (IdentifiableError ''710e8fb0-b8c3-4922-be49-d5d93d8e6a6e'' ''blocking''), s)
                   else if blocked then
                     (Inl (IdentifiableError ''3338392a-f764-498d-8855-db939dcf8c48'' ''blocked''), s)
                   else
                     (Inl (ReferenceError ''followee''), s))))"

subsection \<open>insertFollowingDoc\<close>

text \<open>
  The insert of lines 181 to 186 goes to \<^verbatim>\<open>channelFollowRequestsRepository\<close>, with
  the columns id, followerId and channelId. The repositories answer \<^verbatim>\<open>findOneBy\<close>,
  \<^verbatim>\<open>findOne\<close>, \<^verbatim>\<open>delete\<close> and \<^verbatim>\<open>count\<close> by the criteria they are given.
\<close>

definition same_pair :: "ident \<Rightarrow> ident \<Rightarrow> channelFollowRequest \<Rightarrow> bool" where
  "same_pair channelId followerId r = (cfr_channelId r = channelId \<and> cfr_followerId r = followerId)"

text \<open>
  Modelled from the spec: the uniqueness the storage layer enforces on insert. The
  entity declares its unique index on \<^verbatim>\<open>['channelId', 'followeeId']\<close>, the second of
  which is no column of it; section 3 states the constraint: unique on the pair, beside
  the primary key.
\<close>

definition insert_channelFollowRequest :: "channelFollowRequest \<Rightarrow> store \<Rightarrow> unit result" where
  "insert_channelFollowRequest row s =
     (if list_ex (\<lambda>r. cfr_id r = cfr_id row \<or> same_pair (cfr_channelId row) (cfr_followerId row) r)
           (channelFollowRequests s)
      then (Inl DuplicateKeyValueError, s)
      else (Inr (), s\<lparr>channelFollowRequests := channelFollowRequests s @ [row]\<rparr>))"

definition delete_channelFollowRequest :: "ident \<Rightarrow> ident \<Rightarrow> store \<Rightarrow> store" where
  "delete_channelFollowRequest channelId followerId s =
     s\<lparr>channelFollowRequests :=
        filter (\<lambda>r. \<not> same_pair channelId followerId r) (channelFollowRequests s)\<rparr>"

text \<open>
  Lines 195 to 214: the row of the pair is looked up in the same table and deleted; then
  either \<^verbatim>\<open>alreadyFollowed\<close> returns, or the argument of \<^verbatim>\<open>publishInternalEvent\<close>
  reads \<^verbatim>\<open>followee.id\<close>, and \<^verbatim>\<open>followee\<close> is neither a parameter nor a local of
  this method.
\<close>

definition insertFollowingDoc_rest :: "channel \<Rightarrow> user \<Rightarrow> bool \<Rightarrow> store \<Rightarrow> unit result" where
  "insertFollowingDoc_rest channel follower alreadyFollowed s =
     (let req = find (same_pair (channel_id channel) (user_id follower)) (channelFollowRequests s);
          s1 = (if req \<noteq> None
                then delete_channelFollowRequest (channel_id channel) (user_id follower) s
                else s)
      in if alreadyFollowed then (Inr (), s1)
         else (Inl (ReferenceError ''followee''), s1))"

text \<open>\<open>genId\<close> is the value \<^verbatim>\<open>idService.genId()\<close> returns for the new row.\<close>

definition insertFollowingDoc :: "ident \<Rightarrow> channel \<Rightarrow> user \<Rightarrow> bool \<Rightarrow> store \<Rightarrow> unit result" where
  "insertFollowingDoc genId channel follower silent s =
     (case channel_user channel of
        None \<Rightarrow> (Inl (TypeError ''channel.user''), s)
      | Some owner \<Rightarrow>
          if user_id follower = user_id owner then (Inr (), s)
          else
            (case insert_channelFollowRequest
                    \<lparr>cfr_id = genId, cfr_channelId = channel_id channel,
                     cfr_followerId = user_id follower, cfr_requestId = None\<rparr> s of
               (Inl err, s1) \<Rightarrow>
                 if err = DuplicateKeyValueError \<and> isRemoteUser follower
                 then insertFollowingDoc_rest channel follower True s1
                 else (Inl err, s1)
             | (Inr _, s1) \<Rightarrow> insertFollowingDoc_rest channel follower False s1))"

subsection \<open>unfollow\<close>

text \<open>
  \<^verbatim>\<open>unfollow(channel, followee, silent)\<close>, lines 258 to 313. The lookup of lines 265
  to 274 is \<^verbatim>\<open>findOne\<close> on \<^verbatim>\<open>channelFollowRequestsRepository\<close> with
  \<^verbatim>\<open>relations: { follower: true, channelId: true }\<close>, where \<^verbatim>\<open>followerId\<close> is
  \<^verbatim>\<open>channel.id\<close> and \<^verbatim>\<open>channelId\<close> is \<^verbatim>\<open>followee.id\<close>.

  The relations of the entity \<^verbatim>\<open>ChannelFollowRequest\<close> are its two
  \<^verbatim>\<open>@ManyToOne\<close> properties, \<^verbatim>\<open>channel\<close> (lines 24 to 28 of the entity) and
  \<^verbatim>\<open>follower\<close> (lines 37 to 41); \<^verbatim>\<open>channelId\<close> (lines 17 to 22) is a
  \<^verbatim>\<open>@Column\<close>.
\<close>

definition channelFollowRequest_relations :: "string list" where
  "channelFollowRequest_relations = [''channel'', ''follower'']"

text \<open>
  \<^verbatim>\<open>findOne\<close> with \<^verbatim>\<open>relations\<close>: the repository resolves every key of
  \<^verbatim>\<open>relations\<close> against the relations of the entity before it queries, and rejects
  the call with \<^verbatim>\<open>EntityPropertyNotFoundError\<close> at the first key that is none of them.
\<close>

definition findOne_channelFollowRequest ::
  "string list \<Rightarrow> (channelFollowRequest \<Rightarrow> bool) \<Rightarrow> store \<Rightarrow> error + channelFollowRequest option" where
  "findOne_channelFollowRequest relations wh s =
     (case find (\<lambda>k. k \<notin> set channelFollowRequest_relations) relations of
        Some k \<Rightarrow> Inl (EntityPropertyNotFoundError k)
      | None \<Rightarrow> Inr (find wh (channelFollowRequests s)))"

text \<open>
  A row that the lookup returns is a \<^verbatim>\<open>ChannelFollowRequest\<close>: its
  \<^verbatim>\<open>follower\<close> is the joined user, and it has no property \<^verbatim>\<open>followee\<close>, so
  \<^verbatim>\<open>following.followee\<close> is \<^verbatim>\<open>undefined\<close>.
\<close>

definition cfr_follower :: "store \<Rightarrow> channelFollowRequest \<Rightarrow> user option" where
  "cfr_follower s r = users s (cfr_followerId r)"

definition cfr_followee :: "channelFollowRequest \<Rightarrow> user option" where
  "cfr_followee r = None"

definition delete_following :: "ident \<Rightarrow> store \<Rightarrow> store" where
  "delete_following rowId s = s\<lparr>followings := filter (\<lambda>r. fg_id r \<noteq> rowId) (followings s)\<rparr>"

definition unfollow :: "channel \<Rightarrow> user \<Rightarrow> bool \<Rightarrow> store \<Rightarrow> unit result" where
  "unfollow channel followee silent s =
     (case findOne_channelFollowRequest [''follower'', ''channelId'']
             (\<lambda>r. cfr_followerId r = channel_id channel \<and> cfr_channelId r = user_id followee) s of
        Inl err \<Rightarrow> (Inl err, s)
      | Inr None \<Rightarrow> (Inr (), s)
      | Inr (Some following) \<Rightarrow>
          if cfr_follower s following = None \<or> cfr_followee following = None then (Inr (), s)
          else (Inl (ReferenceError ''follower''), delete_following (cfr_id following) s))"

subsection \<open>decrementFollowing: the counter reconciler\<close>

definition decrement_followingCount :: "ident \<Rightarrow> store \<Rightarrow> store" where
  "decrement_followingCount i s =
     (case users s i of
        None \<Rightarrow> s
      | Some u \<Rightarrow> s\<lparr>users := (users s)(i \<mapsto> u\<lparr>followingCount := followingCount u - 1\<rparr>)\<rparr>)"

definition decrement_followersCount :: "ident \<Rightarrow> store \<Rightarrow> store" where
  "decrement_followersCount i s =
     (case users s i of
        None \<Rightarrow> s
      | Some u \<Rightarrow> s\<lparr>users := (users s)(i \<mapsto> u\<lparr>followersCount := followersCount u - 1\<rparr>)\<rparr>)"

text \<open>
  Lines 331 to 347: \<^verbatim>\<open>federatedInstanceService.fetch(host).then(...)\<close> is recorded as
  the decrement of the instance row and, when the meta flag is set, the chart update.
  Both happen in the \<^verbatim>\<open>then\<close> callback, which runs after the synchronous
  \<^verbatim>\<open>perUserFollowingChart.update\<close> of line 349.
\<close>

definition instance_following_stats :: "string \<Rightarrow> store \<Rightarrow> store" where
  "instance_following_stats h s =
     (let s1 = publish (InstanceDecrement h ''followingCount'') s
      in if enableChartsForFederatedInstances s1
         then publish (InstanceChartUpdateFollowing h False) s1 else s1)"

definition instance_followers_stats :: "string \<Rightarrow> store \<Rightarrow> store" where
  "instance_followers_stats h s =
     (let s1 = publish (InstanceDecrement h ''followersCount'') s
      in if enableChartsForFederatedInstances s1
         then publish (InstanceChartUpdateFollowers h False) s1 else s1)"

definition update_instance_stats :: "user \<Rightarrow> user \<Rightarrow> store \<Rightarrow> store" where
  "update_instance_stats follower followee s =
     (if isRemoteUser follower \<and> isLocalUser followee then
        (case user_host follower of None \<Rightarrow> s | Some h \<Rightarrow> instance_following_stats h s)
      else if isLocalUser follower \<and> isRemoteUser followee then
        (case user_host followee of None \<Rightarrow> s | Some h \<Rightarrow> instance_followers_stats h s)
      else s)"

text \<open>
  The two counts of lines 355 to 376. The joined counterpart is filtered with
  \<^verbatim>\<open>movedToUri: IsNull()\<close>; the relation is joined from the edge (a left join), so
  an edge whose counterpart row is absent has a null column. The foreign keys of the
  table rule such an edge out.
\<close>

definition movedToUri_IsNull :: "store \<Rightarrow> ident \<Rightarrow> bool" where
  "movedToUri_IsNull s i = (case users s i of None \<Rightarrow> True | Some u \<Rightarrow> movedToUri u = None)"

definition nonMovedFollowees :: "store \<Rightarrow> ident \<Rightarrow> int" where
  "nonMovedFollowees s i =
     int (length (filter (\<lambda>r. fg_followerId r = i \<and> movedToUri_IsNull s (fg_followeeId r))
                    (followings s)))"

definition nonMovedFollowers :: "store \<Rightarrow> ident \<Rightarrow> int" where
  "nonMovedFollowers s i =
     int (length (filter (\<lambda>r. fg_followeeId r = i \<and> movedToUri_IsNull s (fg_followerId r))
                    (followings s)))"

text \<open>The body of the loop of line 352, for one \<^verbatim>\<open>user\<close> of the pair.\<close>

definition recount :: "user \<Rightarrow> store \<Rightarrow> store" where
  "recount u s =
     (if truthy (movedToUri u) then s
      else
        (case users s (user_id u) of
           None \<Rightarrow> s
         | Some row \<Rightarrow>
             s\<lparr>users := (users s)(user_id u \<mapsto>
                  row\<lparr>followingCount := nonMovedFollowees s (user_id u),
                      followersCount := nonMovedFollowers s (user_id u)\<rparr>)\<rparr>))"

definition decrementFollowing :: "user \<Rightarrow> user \<Rightarrow> store \<Rightarrow> store" where
  "decrementFollowing follower followee s =
     (let s1 = publish (InternalEvent ''unfollow'' (user_id follower) (user_id followee)) s
      in if \<not> truthy (movedToUri follower) \<and> \<not> truthy (movedToUri followee) then
           (let s2 = decrement_followingCount (user_id follower) s1;
                s3 = decrement_followersCount (user_id followee) s2;
                s4 = publish (PerUserFollowingChartUpdate (user_id follower) (user_id followee) False) s3
            in update_instance_stats follower followee s4)
         else fold recount [follower, followee] s1)"

subsection \<open>The follow-request sub-protocol\<close>

text \<open>
  \<^verbatim>\<open>createFollowRequest\<close>, lines 388 to 443: the self guard and the blocking check
  run; the insert of line 408 is a call on \<^verbatim>\<open>this.followRequestsRepository\<close>.
\<close>

definition createFollowRequest :: "user \<Rightarrow> user \<Rightarrow> string option \<Rightarrow> store \<Rightarrow> unit result" where
  "createFollowRequest follower followee requestId s =
     (if user_id follower = user_id followee then (Inr (), s)
      else
        (let blocking = checkBlocked s (user_id follower) (user_id followee);
             blocked = checkBlocked s (user_id followee) (user_id follower)
         in if blocking then (Inl (Error ''blocking''), s)
            else if blocked then (Inl (Error ''blocked''), s)
            else (Inl followRequestsRepository_undefined, s)))"

text \<open>
  \<^verbatim>\<open>cancelFollowRequest\<close>, lines 446 to 479: the Undo is queued for a remote followee
  and a local follower; the lookup of line 462 is a call on
  \<^verbatim>\<open>this.followRequestsRepository\<close>.
\<close>

definition cancelFollowRequest :: "user \<Rightarrow> user \<Rightarrow> store \<Rightarrow> unit result" where
  "cancelFollowRequest followee follower s =
     (let s1 =
        (if isRemoteUser followee then
           (let content = Undo (Follow (user_id follower) (user_id followee) None) (user_id follower)
            in if isLocalUser follower
               then deliver (user_id follower) content (user_inbox followee) False s
               else s)
         else s)
      in (Inl followRequestsRepository_undefined, s1))"

text \<open>\<^verbatim>\<open>acceptFollowRequest\<close>, lines 482 to 507: line 488 is the first statement.\<close>

definition acceptFollowRequest :: "user \<Rightarrow> user \<Rightarrow> store \<Rightarrow> unit result" where
  "acceptFollowRequest followee follower s = (Inl followRequestsRepository_undefined, s)"

text \<open>\<^verbatim>\<open>acceptAllFollowRequests\<close>, lines 510 to 523: line 515 is the first statement.\<close>

definition acceptAllFollowRequests :: "user \<Rightarrow> store \<Rightarrow> unit result" where
  "acceptAllFollowRequests u s = (Inl followRequestsRepository_undefined, s)"

text \<open>\<^verbatim>\<open>removeFollowRequest\<close>, lines 553 to 562: line 554 is the first statement.\<close>

definition removeFollowRequest :: "channel \<Rightarrow> user \<Rightarrow> store \<Rightarrow> unit result" where
  "removeFollowRequest channel follower s = (Inl followRequestsRepository_undefined, s)"

text \<open>
  \<^verbatim>\<open>publishUnfollow\<close>, lines 605 to 618. \<^verbatim>\<open>UserEntityService.pack\<close> is not among
  the sources; the payload is stood for by the id it is asked to pack.
\<close>

definition publishUnfollow :: "channel \<Rightarrow> user \<Rightarrow> store \<Rightarrow> store" where
  "publishUnfollow followee follower s =
     (let s1 = publish (MainStream (user_id follower) ''unfollow'' (channel_id followee)) s;
          hooks = filter (\<lambda>x. wh_userId x = user_id follower \<and> ''unfollow'' \<in> set (wh_on x))
                    (webhooks s1)
      in fold (\<lambda>w. publish (WebhookDeliver (wh_id w) ''unfollow'' (channel_id followee))) hooks s1)"

text \<open>
  \<^verbatim>\<open>rejectFollowRequest\<close>, lines 529 to 535: the awaited \<^verbatim>\<open>removeFollowRequest\<close>
  rejects, and the rejection leaves through the \<^verbatim>\<open>await\<close>.
\<close>

definition rejectFollowRequest :: "channel \<Rightarrow> user \<Rightarrow> store \<Rightarrow> unit result" where
  "rejectFollowRequest channel follower s =
     (case removeFollowRequest channel follower s of
        (Inl err, s1) \<Rightarrow> (Inl err, s1)
      | (Inr _, s1) \<Rightarrow>
          (Inr (), if isLocalUser follower then publishUnfollow channel follower s1 else s1))"

text \<open>
  \<^verbatim>\<open>removeFollow\<close>, lines 568 to 585: the edge is looked up in
  \<^verbatim>\<open>followingsRepository\<close> with both users joined, deleted by its id, and the
  counters are reconciled. \<^verbatim>\<open>decrementFollowing\<close> is not awaited; its effects are
  taken in program order.
\<close>

definition removeFollow :: "channel \<Rightarrow> user \<Rightarrow> store \<Rightarrow> store" where
  "removeFollow followee follower s =
     (case find (\<lambda>r. fg_followeeId r = channel_id followee \<and> fg_followerId r = user_id follower)
             (followings s) of
        None \<Rightarrow> s
      | Some following \<Rightarrow>
          (case (users s (fg_followeeId following), users s (fg_followerId following)) of
             (Some following_followee, Some following_follower) \<Rightarrow>
               decrementFollowing following_follower following_followee
                 (delete_following (fg_id following) s)
           | _ \<Rightarrow> s))"

definition rejectFollow :: "channel \<Rightarrow> user \<Rightarrow> store \<Rightarrow> unit result" where
  "rejectFollow channel follower s =
     (let s1 = removeFollow channel follower s
      in (Inr (), if isLocalUser follower then publishUnfollow channel follower s1 else s1))"

subsection \<open>The operations of the orchestrator\<close>

datatype operation =
    OpFollow ident ident "string option" bool
  | OpUnfollow channel user bool
  | OpCreateFollowRequest user user "string option"
  | OpCancelFollowRequest user user
  | OpAcceptFollowRequest user user
  | OpAcceptAllFollowRequests user
  | OpRejectFollowRequest channel user
  | OpRejectFollow channel user

fun perform :: "operation \<Rightarrow> store \<Rightarrow> unit result" where
  "perform (OpFollow followerId channelId requestId silent) s = follow followerId channelId requestId silent s"
| "perform (OpUnfollow channel followee silent) s = unfollow channel followee silent s"
| "perform (OpCreateFollowRequest follower followee requestId) s = createFollowRequest follower followee requestId s"
| "perform (OpCancelFollowRequest followee follower) s = cancelFollowRequest followee follower s"
| "perform (OpAcceptFollowRequest followee follower) s = acceptFollowRequest followee follower s"
| "perform (OpAcceptAllFollowRequests u) s = acceptAllFollowRequests u s"
| "perform (OpRejectFollowRequest channel follower) s = rejectFollowRequest channel follower s"
| "perform (OpRejectFollow channel follower) s = rejectFollow channel follower s"

section \<open>Observations on the store\<close>

text \<open>A pending request, and an established edge, for the ordered pair.\<close>

definition hasFollowRequest :: "store \<Rightarrow> ident \<Rightarrow> ident \<Rightarrow> bool" where
  "hasFollowRequest s followerId followeeId =
     list_ex (\<lambda>r. cfr_followerId r = followerId \<and> cfr_channelId r = followeeId)
       (channelFollowRequests s)"

definition hasFollowing :: "store \<Rightarrow> ident \<Rightarrow> ident \<Rightarrow> bool" where
  "hasFollowing s followerId followeeId =
     list_ex (\<lambda>e. fg_followerId e = followerId \<and> fg_followeeId e = followeeId) (followings s)"








section \<open>Example actors and stores\<close>

definition alice :: user where
  "alice = \<lparr>user_id = ''alice'', user_host = None, user_uri = None, user_inbox = None,
            user_sharedInbox = None, movedToUri = None, followingCount = 3, followersCount = 5\<rparr>"

definition remi :: user where
  "remi = \<lparr>user_id = ''remi'', user_host = Some ''remote.example'',
           user_uri = Some ''https://remote.example/users/remi'',
           user_inbox = Some ''https://remote.example/inbox'', user_sharedInbox = None,
           movedToUri = None, followingCount = 2, followersCount = 0\<rparr>"

definition mover :: user where
  "mover = \<lparr>user_id = ''mover'', user_host = None, user_uri = None, user_inbox = None,
            user_sharedInbox = None, movedToUri = Some ''https://elsewhere.example/users/mover'',
            followingCount = 4, followersCount = 4\<rparr>"

definition news :: channel where
  "news = \<lparr>channel_id = ''news'', channel_user = None\<rparr>"

text \<open>The same channel with its owner joined.\<close>

definition news_owned :: channel where
  "news_owned = \<lparr>channel_id = ''news'', channel_user = Some mover\<rparr>"

text \<open>The channel \<open>news\<close> as the actor-shaped argument the request methods take.\<close>

definition newsActor :: user where
  "newsActor = \<lparr>user_id = ''news'', user_host = None, user_uri = None, user_inbox = None,
                user_sharedInbox = None, movedToUri = None, followingCount = 0, followersCount = 0\<rparr>"

definition town :: store where
  "town = \<lparr>users = [''alice'' \<mapsto> alice, ''remi'' \<mapsto> remi, ''mover'' \<mapsto> mover],
           channels = [''news'' \<mapsto> news], blockings = [], followings = [],
           channelFollowRequests = [], channelFollowings = [], queue = [], events = [],
           webhooks = [], enableChartsForFederatedInstances = False\<rparr>"

text \<open>\<open>news\<close> blocks \<open>alice\<close>; \<open>news\<close> blocks \<open>remi\<close>.\<close>

definition town_alice_blocked :: store where
  "town_alice_blocked = town\<lparr>blockings := [(''news'', ''alice'')]\<rparr>"

definition town_remi_blocked :: store where
  "town_remi_blocked = town\<lparr>blockings := [(''news'', ''remi'')]\<rparr>"

text \<open>The edge \<open>remi \<rightarrow> news\<close> is stored.\<close>

definition town_remi_follows_news :: store where
  "town_remi_follows_news =
     town\<lparr>followings := [\<lparr>fg_id = ''f1'', fg_followerId = ''remi'', fg_followeeId = ''news''\<rparr>]\<rparr>"

text \<open>A request \<open>alice \<rightarrow> news\<close> is pending.\<close>

definition town_alice_requested :: store where
  "town_alice_requested =
     town\<lparr>channelFollowRequests :=
       [\<lparr>cfr_id = ''r1'', cfr_channelId = ''news'', cfr_followerId = ''alice'', cfr_requestId = None\<rparr>]\<rparr>"





text \<open>\<open>alice\<close> follows the channel \<open>news\<close> in the channel-following table.\<close>

definition town_channel_followed :: store where
  "town_channel_followed =
     town\<lparr>channelFollowings := [\<lparr>cf_id = ''c1'', cf_followeeId = ''news'', cf_followerId = ''alice''\<rparr>]\<rparr>"

section \<open>Frame lemmas\<close>

lemma publish_fields [simp]:
  "users (publish e s) = users s" "followings (publish e s) = followings s"
  "channelFollowRequests (publish e s) = channelFollowRequests s"
  "queue (publish e s) = queue s" "webhooks (publish e s) = webhooks s"
  "enableChartsForFederatedInstances (publish e s) = enableChartsForFederatedInstances s"
  by (simp_all add: publish_def)

lemma fold_publish_fields [simp]:
  "users (fold (\<lambda>w. publish (f w)) ws s) = users s"
  "followings (fold (\<lambda>w. publish (f w)) ws s) = followings s"
  "channelFollowRequests (fold (\<lambda>w. publish (f w)) ws s) = channelFollowRequests s"
  by (induction ws arbitrary: s) simp_all

lemma publishUnfollow_fields [simp]:
  "users (publishUnfollow c u s) = users s"
  "followings (publishUnfollow c u s) = followings s"
  "channelFollowRequests (publishUnfollow c u s) = channelFollowRequests s"
  by (simp_all add: publishUnfollow_def Let_def)

lemma update_instance_stats_fields [simp]:
  "users (update_instance_stats a b s) = users s"
  "followings (update_instance_stats a b s) = followings s"
  "channelFollowRequests (update_instance_stats a b s) = channelFollowRequests s"
  by (simp_all add: update_instance_stats_def instance_following_stats_def
        instance_followers_stats_def Let_def split: option.splits)

lemma decrement_fields [simp]:
  "followings (decrement_followingCount i s) = followings s"
  "channelFollowRequests (decrement_followingCount i s) = channelFollowRequests s"
  "followings (decrement_followersCount i s) = followings s"
  "channelFollowRequests (decrement_followersCount i s) = channelFollowRequests s"
  by (simp_all add: decrement_followingCount_def decrement_followersCount_def
        split: option.splits)

lemma recount_fields [simp]:
  "followings (recount u s) = followings s"
  "channelFollowRequests (recount u s) = channelFollowRequests s"
  by (simp_all add: recount_def split: option.splits)

lemma decrementFollowing_fields [simp]:
  "followings (decrementFollowing a b s) = followings s"
  "channelFollowRequests (decrementFollowing a b s) = channelFollowRequests s"
  by (simp_all add: decrementFollowing_def Let_def)

lemma removeFollow_requests [simp]:
  "channelFollowRequests (removeFollow c u s) = channelFollowRequests s"
  by (simp add: removeFollow_def delete_following_def split: option.splits)

lemma removeFollow_followings:
  "set (followings (removeFollow c u s)) \<subseteq> set (followings s)"
  by (auto simp: removeFollow_def delete_following_def split: option.splits)

text \<open>
  The find options of line 266 name \<^verbatim>\<open>channelId\<close>, which is no relation, so the
  lookup of \<^verbatim>\<open>unfollow\<close> is refused whatever the tables hold.
\<close>

lemma unfollow_raises:
  "unfollow channel followee silent s = (Inl (EntityPropertyNotFoundError ''channelId''), s)"
  by (simp add: unfollow_def findOne_channelFollowRequest_def channelFollowRequest_relations_def)

lemma perform_requests:
  "channelFollowRequests (snd (perform op s)) = channelFollowRequests s"
proof (cases op)
  case (OpFollow f c r b)
  then show ?thesis
    by (simp add: follow_def unblock_def Let_def split: option.splits)
next
  case (OpCancelFollowRequest e f)
  then show ?thesis by (simp add: cancelFollowRequest_def deliver_def Let_def)
qed (simp_all add: unfollow_raises createFollowRequest_def acceptFollowRequest_def
       acceptAllFollowRequests_def rejectFollowRequest_def removeFollowRequest_def
       rejectFollow_def Let_def)

lemma perform_followings:
  "set (followings (snd (perform op s))) \<subseteq> set (followings s)"
proof (cases op)
  case (OpFollow f c r b)
  then show ?thesis
    by (simp add: follow_def unblock_def Let_def split: option.splits)
next
  case (OpCancelFollowRequest e f)
  then show ?thesis by (simp add: cancelFollowRequest_def deliver_def Let_def)
next
  case (OpRejectFollow c f)
  then show ?thesis using removeFollow_followings [of c f s]
    by (simp add: rejectFollow_def Let_def)
qed (simp_all add: unfollow_raises createFollowRequest_def acceptFollowRequest_def
       acceptAllFollowRequests_def rejectFollowRequest_def removeFollowRequest_def Let_def)

text \<open>
  \<^verbatim>\<open>insertFollowingDoc\<close> writes the request table only, and what it leaves there is
  what was there before without the rows of the pair.
\<close>

lemma insertFollowingDoc_rest_fields:
  "followings (snd (insertFollowingDoc_rest c f a s)) = followings s"
  "set (channelFollowRequests (snd (insertFollowingDoc_rest c f a s)))
     = set (channelFollowRequests s) - {r. same_pair (channel_id c) (user_id f) r}"
  by (auto simp: insertFollowingDoc_rest_def delete_channelFollowRequest_def Let_def
        find_None_iff)

lemma insertFollowingDoc_followings:
  "followings (snd (insertFollowingDoc g c f silent s)) = followings s"
  by (auto simp: insertFollowingDoc_def insert_channelFollowRequest_def
        insertFollowingDoc_rest_fields split: option.splits)

lemma insertFollowingDoc_requests:
  "set (channelFollowRequests (snd (insertFollowingDoc g c f silent s)))
     \<subseteq> set (channelFollowRequests s)"
  by (auto simp: insertFollowingDoc_def insert_channelFollowRequest_def
        insertFollowingDoc_rest_fields same_pair_def split: option.splits)

text \<open>A recount rewrites counters only, so the counts a later recount reads are the same.\<close>

lemma movedToUri_IsNull_recount [simp]:
  "movedToUri_IsNull (recount u s) i = movedToUri_IsNull s i"
  by (simp add: movedToUri_IsNull_def recount_def split: option.splits)

lemma counts_recount [simp]:
  "nonMovedFollowees (recount u s) i = nonMovedFollowees s i"
  "nonMovedFollowers (recount u s) i = nonMovedFollowers s i"
  by (simp_all add: nonMovedFollowees_def nonMovedFollowers_def)

lemma movedToUri_IsNull_publish [simp]:
  "movedToUri_IsNull (publish e s) i = movedToUri_IsNull s i"
  by (simp add: movedToUri_IsNull_def)

lemma counts_publish [simp]:
  "nonMovedFollowees (publish e s) i = nonMovedFollowees s i"
  "nonMovedFollowers (publish e s) i = nonMovedFollowers s i"
  by (simp_all add: nonMovedFollowees_def nonMovedFollowers_def)














section \<open>The claims\<close>

text \<open>
  C1. For every ordered pair, no operation of the orchestrator (follow, unfollow,
  createFollowRequest, cancelFollowRequest, acceptFollowRequest, acceptAllFollowRequests,
  rejectFollowRequest, rejectFollow), however it ends, leaves the store holding both a
  pending request and an established edge for the pair when it held at most one of them
  before; the same holds of the private \<^verbatim>\<open>insertFollowingDoc\<close> (lines 170 to 255).
\<close>

theorem request_and_edge_exclusive:
  assumes "\<not> (hasFollowRequest s a b \<and> hasFollowing s a b)"
  shows "\<not> (hasFollowRequest (snd (perform op s)) a b \<and> hasFollowing (snd (perform op s)) a b) \<and>
         \<not> (hasFollowRequest (snd (insertFollowingDoc g c f silent s)) a b \<and>
             hasFollowing (snd (insertFollowingDoc g c f silent s)) a b)"
  using assms perform_followings [of op s] insertFollowingDoc_requests [of g c f silent s]
  by (auto simp: hasFollowRequest_def hasFollowing_def list_ex_iff perform_requests
        insertFollowingDoc_followings)

theorem request_and_edge_exclusive_witness:
  "\<not> (hasFollowRequest town_remi_follows_news ''remi'' ''news'' \<and>
      hasFollowing town_remi_follows_news ''remi'' ''news'') \<and>
   hasFollowing town_remi_follows_news ''remi'' ''news'' \<and>
   \<not> (hasFollowRequest (snd (perform (OpRejectFollow news remi) town_remi_follows_news)) ''remi'' ''news'' \<and>
      hasFollowing (snd (perform (OpRejectFollow news remi) town_remi_follows_news)) ''remi'' ''news'') \<and>
   \<not> (hasFollowRequest (snd (insertFollowingDoc ''r9'' news_owned remi False town_remi_follows_news)) ''remi'' ''news'' \<and>
      hasFollowing (snd (insertFollowingDoc ''r9'' news_owned remi False town_remi_follows_news)) ''remi'' ''news'')"
proof -
  have h: "\<not> (hasFollowRequest town_remi_follows_news ''remi'' ''news'' \<and>
              hasFollowing town_remi_follows_news ''remi'' ''news'')"
    by (simp add: hasFollowRequest_def town_remi_follows_news_def town_def)
  have e: "hasFollowing town_remi_follows_news ''remi'' ''news''"
    by (simp add: hasFollowing_def town_remi_follows_news_def town_def)
  show ?thesis
    using h e request_and_edge_exclusive
      [OF h, of "OpRejectFollow news remi" "''r9''" news_owned remi False]
    by blast
qed

text \<open>
  C2. When the follower is local and a block exists in either direction, \<^verbatim>\<open>follow\<close>
  raises the identifiable error of the blocking violation: \<^verbatim>\<open>'blocking'\<close> when the
  follower blocks the followee, \<^verbatim>\<open>'blocked'\<close> when only the followee blocks the
  follower. The store is returned as it was, so neither a request nor an edge is created.
\<close>

theorem follow_local_blocking_violation:
  assumes "users s followerId = Some follower" and "channels s channelId = Some channel"
    and "isLocalUser follower"
    and "checkBlocked s (user_id follower) (channel_id channel) \<or>
         checkBlocked s (channel_id channel) (user_id follower)"
  shows "follow followerId channelId requestId silent s =
     (Inl (if checkBlocked s (user_id follower) (channel_id channel)
           then IdentifiableError ''710e8fb0-b8c3-4922-be49-d5d93d8e6a6e'' ''blocking''
           else IdentifiableError ''3338392a-f764-498d-8855-db939dcf8c48'' ''blocked''), s)"
  using assms by (auto simp add: follow_def isRemoteUser_def Let_def)

theorem follow_local_blocking_violation_witness:
  "follow ''alice'' ''news'' None False town_alice_blocked =
     (Inl (IdentifiableError ''3338392a-f764-498d-8855-db939dcf8c48'' ''blocked''), town_alice_blocked) \<and>
   follow ''alice'' ''news'' None False (town\<lparr>blockings := [(''alice'', ''news''), (''news'', ''alice'')]\<rparr>) =
     (Inl (IdentifiableError ''710e8fb0-b8c3-4922-be49-d5d93d8e6a6e'' ''blocking''),
      town\<lparr>blockings := [(''alice'', ''news''), (''news'', ''alice'')]\<rparr>)"
proof -
  have u: "users town_alice_blocked ''alice'' = Some alice"
    and c: "channels town_alice_blocked ''news'' = Some news"
    by (simp_all add: town_alice_blocked_def town_def)
  have l: "isLocalUser alice" by (simp add: isLocalUser_def alice_def)
  have b: "checkBlocked town_alice_blocked (user_id alice) (channel_id news) \<or>
           checkBlocked town_alice_blocked (channel_id news) (user_id alice)"
    by (simp add: checkBlocked_def town_alice_blocked_def town_def alice_def news_def)
  have nb: "\<not> checkBlocked town_alice_blocked (user_id alice) (channel_id news)"
    by (simp add: checkBlocked_def town_alice_blocked_def town_def alice_def news_def)
  let ?t = "town\<lparr>blockings := [(''alice'', ''news''), (''news'', ''alice'')]\<rparr>"
  have u2: "users ?t ''alice'' = Some alice" and c2: "channels ?t ''news'' = Some news"
    by (simp_all add: town_def)
  have b2: "checkBlocked ?t (user_id alice) (channel_id news)"
    by (simp add: checkBlocked_def alice_def news_def)
  from follow_local_blocking_violation [OF u c l b, of None False] nb
  have first: "follow ''alice'' ''news'' None False town_alice_blocked =
     (Inl (IdentifiableError ''3338392a-f764-498d-8855-db939dcf8c48'' ''blocked''), town_alice_blocked)"
    by simp
  from follow_local_blocking_violation [OF u2 c2 l, of None False] b2
  have second: "follow ''alice'' ''news'' None False ?t =
     (Inl (IdentifiableError ''710e8fb0-b8c3-4922-be49-d5d93d8e6a6e'' ''blocking''), ?t)"
    by simp
  from first second show ?thesis by simp
qed

text \<open>
  C3. A remote follower whom the followee blocks: \<^verbatim>\<open>follow\<close> ends in the
  ReferenceError of line 101 and nothing is queued for delivery.
\<close>

theorem follow_remote_blocked_raises:
  "follow ''remi'' ''news'' (Some ''https://remote.example/follows/1'') False town_remi_blocked =
     (Inl (ReferenceError ''followee''), town_remi_blocked) \<and>
   isRemoteUser remi \<and> checkBlocked town_remi_blocked ''news'' ''remi'' \<and>
   queue town_remi_blocked = []"
  by (simp add: follow_def town_remi_blocked_def town_def remi_def news_def checkBlocked_def
        isRemoteUser_def isLocalUser_def)

text \<open>
  C4. A remote follower whose edge is already stored: the second \<^verbatim>\<open>follow\<close> ends in
  the ReferenceError of line 113. \<^verbatim>\<open>insertFollowingDoc\<close> itself, given the same
  pair, meets no conflict (its insert is into the request table, where the pair has no
  row), deletes the row it has just inserted and ends in the ReferenceError of line 214.
\<close>

theorem follow_remote_again_raises:
  "hasFollowing town_remi_follows_news ''remi'' ''news'' \<and> isRemoteUser remi \<and>
   follow ''remi'' ''news'' (Some ''https://remote.example/follows/1'') False town_remi_follows_news =
     (Inl (ReferenceError ''followee''), town_remi_follows_news) \<and>
   insertFollowingDoc ''r9'' news_owned remi False town_remi_follows_news =
     (Inl (ReferenceError ''followee''), town_remi_follows_news)"
  by (simp add: follow_def town_remi_follows_news_def town_def remi_def news_def
        checkBlocked_def isRemoteUser_def isLocalUser_def hasFollowing_def
        insertFollowingDoc_def insert_channelFollowRequest_def insertFollowingDoc_rest_def
        delete_channelFollowRequest_def same_pair_def news_owned_def mover_def Let_def)

text \<open>
  C5. A local follower, no relation and no block: \<^verbatim>\<open>follow\<close> ends in the
  ReferenceError of line 113 and no request is stored.
\<close>

theorem follow_local_unrelated_raises:
  "isLocalUser alice \<and>
   follow ''alice'' ''news'' None False town = (Inl (ReferenceError ''followee''), town) \<and>
   \<not> hasFollowRequest (snd (follow ''alice'' ''news'' None False town)) ''alice'' ''news''"
  by (simp add: follow_def town_def alice_def news_def checkBlocked_def isRemoteUser_def
        isLocalUser_def hasFollowRequest_def)

text \<open>
  C6. With no edge stored for the pair, \<^verbatim>\<open>unfollow\<close> ends in the
  \<^verbatim>\<open>EntityPropertyNotFoundError\<close> of the lookup of line 265; the store is as it was.
\<close>

theorem unfollow_absent_edge_raises:
  "\<not> hasFollowing town (channel_id news) (user_id alice) \<and>
   \<not> hasFollowing town (user_id alice) (channel_id news) \<and>
   unfollow news alice False town = (Inl (EntityPropertyNotFoundError ''channelId''), town)"
  by (simp add: unfollow_def findOne_channelFollowRequest_def channelFollowRequest_relations_def
        hasFollowing_def town_def)

text \<open>
  C7. \<^verbatim>\<open>acceptFollowRequest\<close> ends in the TypeError of line 488 whether or not a
  request is pending; a pending request stays and no edge appears.
  \<^verbatim>\<open>insertFollowingDoc\<close> itself, given a local follower whose request is pending,
  rethrows the duplicate-key error of its insert and leaves the request in place.
\<close>

theorem acceptFollowRequest_raises:
  "acceptFollowRequest newsActor alice town = (Inl (TypeError ''this.followRequestsRepository''), town) \<and>
   hasFollowRequest town_alice_requested ''alice'' ''news'' \<and>
   acceptFollowRequest newsActor alice town_alice_requested =
     (Inl (TypeError ''this.followRequestsRepository''), town_alice_requested) \<and>
   \<not> hasFollowing (snd (acceptFollowRequest newsActor alice town_alice_requested)) ''alice'' ''news'' \<and>
   insertFollowingDoc ''r9'' news_owned alice False town_alice_requested =
     (Inl DuplicateKeyValueError, town_alice_requested)"
  by (simp add: acceptFollowRequest_def followRequestsRepository_undefined_def
        hasFollowRequest_def hasFollowing_def town_alice_requested_def town_def
        insertFollowingDoc_def insert_channelFollowRequest_def same_pair_def news_owned_def
        mover_def alice_def isRemoteUser_def isLocalUser_def)



text \<open>
  C9. With no request pending, \<^verbatim>\<open>rejectFollowRequest\<close> ends in the TypeError of
  line 554, which the \<^verbatim>\<open>await\<close> of line 530 passes on.
\<close>

theorem rejectFollowRequest_raises:
  "\<not> hasFollowRequest town ''alice'' ''news'' \<and>
   rejectFollowRequest news alice town = (Inl (TypeError ''this.followRequestsRepository''), town)"
  by (simp add: rejectFollowRequest_def removeFollowRequest_def
        followRequestsRepository_undefined_def hasFollowRequest_def town_def)

text \<open>
  C10. \<^verbatim>\<open>isFolloing(channelId, userId)\<close> is true exactly when the channel-following
  table holds a row whose \<^verbatim>\<open>followeeId\<close> is the channel id and whose
  \<^verbatim>\<open>followerId\<close> is the user id. It looks at no other table and has no failing
  branch, so ids of no channel and no user give \<open>False\<close>.
\<close>

theorem isFolloing_iff:
  "isFolloing s channelId userId \<longleftrightarrow>
     (\<exists>r \<in> set (channelFollowings s). cf_followeeId r = channelId \<and> cf_followerId r = userId)"
  unfolding isFolloing_def
  by (auto simp: find_None_iff find_Some_iff split: option.splits)

theorem isFolloing_iff_witness:
  "isFolloing town_channel_followed ''news'' ''alice'' \<and>
   \<not> isFolloing town_channel_followed ''nochannel'' ''nobody'' \<and>
   channels town_channel_followed ''nochannel'' = None \<and>
   users town_channel_followed ''nobody'' = None"
  using isFolloing_iff [of town_channel_followed "''news''" "''alice''"]
    isFolloing_iff [of town_channel_followed "''nochannel''" "''nobody''"]
  by (simp add: town_channel_followed_def town_def)

end
